theory Spec2Isabelle
  imports Complex_Main
begin

section \<open>Data model (schema.sql)\<close>

text \<open>
  The tables of the schema, one record per row type, restricted to the columns the
  scheduler, the subscribe route and the notification helper read or write.
  A DATE column is a day number (\<open>int\<close>), a DATETIME/TIMESTAMP column a number of seconds
  on the same naive time line, so that \<open>DATE(t)\<close> is \<open>t div 86400\<close> and
  \<open>t - INTERVAL 7 DAY\<close> is \<open>t - 7 * 86400\<close>. The \<open>tinyint(1)\<close> flags, which the code only
  ever writes as 0 and 1, are booleans.
\<close>

datatype role = Member | Admin

datatype status = Pending | Active | Expired

record user =
  u_id :: int
  u_name :: string
  u_email :: string
  u_role :: role
  u_is_active :: bool

record membership_plan =
  p_id :: int
  p_name :: string
  duration_days :: int

record membership =
  m_id :: int
  m_user_id :: int
  m_plan_id :: int
  start_date :: int
  end_date :: int
  status :: status

record attendance_entry =
  a_id :: int
  a_user_id :: int
  check_in :: int

record notification =
  n_id :: int
  n_user_id :: int
  n_type :: string
  message :: string
  is_read :: bool
  created_at :: int

record database =
  users :: "user list"
  membership_plans :: "membership_plan list"
  memberships :: "membership list"
  attendance :: "attendance_entry list"
  notifications :: "notification list"

definition DATE :: "int \<Rightarrow> int" where
  "DATE t = t div 86400"

definition days :: "int \<Rightarrow> int" where
  "days n = n * 86400"

text \<open>AUTO_INCREMENT: the next id is above every id in the table.\<close>

definition auto_increment :: "int list \<Rightarrow> int" where
  "auto_increment ids = fold max ids 0 + 1"

section \<open>The process and its collaborators\<close>

text \<open>
  Everything the code touches besides its arguments: the database behind \<open>pool\<close>, the
  module variable \<open>lastDailyRunKey\<close>, the console, and the mails handed to the SMTP
  transport. Two fields say how the collaborators behave: \<open>budget\<close> is the number of
  statements the store still accepts before \<open>pool.execute\<close> rejects (\<open>None\<close>: it never
  rejects) and \<open>smtp_up\<close> says whether \<open>transporter.sendMail\<close> resolves. \<open>daily_calls\<close>
  is bookkeeping of the model, not a variable of the program: it counts the entries into
  \<open>dailyNotificationTasks\<close>.
\<close>

datatype error = StoreError

datatype log_entry =
  MailSent string string
  | MailSendFailed
  | EmailOnNotificationFailed
  | DailyNotificationsComplete
  | HourlyTasksError
  | ServerError

record mail =
  mail_to :: string
  mail_subject :: string
  mail_name :: string
  mail_message :: string

record world =
  db :: database
  budget :: "nat option"
  smtp_up :: bool
  console :: "log_entry list"
  outbox :: "mail list"
  lastDailyRunKey :: "string option"
  daily_calls :: nat

text \<open>
  What is fixed when the process starts: \<open>DAILY_RUN_HOUR\<close>, whether a mail transporter was
  created (\<open>EMAIL_ENABLED\<close>), and the text JavaScript prints for a date inside a template
  string (calendar formatting is not modelled).
\<close>

record config =
  DAILY_RUN_HOUR :: int
  transporter :: bool
  render_date :: "int \<Rightarrow> string"

type_synonym 'a io = "error \<times> world + 'a \<times> world"

text \<open>\<open>await pool.execute(...)\<close>: the statement runs, or the promise rejects and nothing is written.\<close>

definition execute :: "(database \<Rightarrow> 'a \<times> database) \<Rightarrow> world \<Rightarrow> 'a io" where
  "execute stmt w =
     (case budget w of
        None \<Rightarrow> (case stmt (db w) of (r, d) \<Rightarrow> Inr (r, w\<lparr>db := d\<rparr>))
      | Some 0 \<Rightarrow> Inl (StoreError, w)
      | Some (Suc k) \<Rightarrow> (case stmt (db w) of (r, d) \<Rightarrow> Inr (r, w\<lparr>db := d, budget := Some k\<rparr>)))"

text \<open>A SELECT: a statement that leaves the tables as they are.\<close>

definition query :: "(database \<Rightarrow> 'a) \<Rightarrow> world \<Rightarrow> 'a io" where
  "query q w = execute (\<lambda>d. (q d, d)) w"

text \<open>\<open>for (const x of xs) { await body(x) }\<close>: the first rejection leaves the loop.\<close>

fun for_each :: "('a \<Rightarrow> world \<Rightarrow> unit io) \<Rightarrow> 'a list \<Rightarrow> world \<Rightarrow> unit io" where
  "for_each body [] w = Inr ((), w)"
| "for_each body (x # xs) w =
     (case body x w of
        Inl ew \<Rightarrow> Inl ew
      | Inr (_, w1) \<Rightarrow> for_each body xs w1)"

section \<open>Lifecycle transitions: activateExpireTasks\<close>

text \<open>
  The call is given the date \<open>CURDATE()\<close> returns in the database: both statements see the
  same day.
\<close>

definition activate_row :: "int \<Rightarrow> membership \<Rightarrow> membership" where
  "activate_row today m =
     (if status m = Pending \<and> start_date m \<le> today then m\<lparr>status := Active\<rparr> else m)"

definition expire_row :: "int \<Rightarrow> membership \<Rightarrow> membership" where
  "expire_row today m =
     (if status m = Active \<and> end_date m < today then m\<lparr>status := Expired\<rparr> else m)"

text \<open>\<open>UPDATE memberships SET status='active' WHERE status='pending' AND start_date <= CURDATE()\<close>\<close>

definition update_activate :: "int \<Rightarrow> database \<Rightarrow> unit \<times> database" where
  "update_activate today d = ((), d\<lparr>memberships := map (activate_row today) (memberships d)\<rparr>)"

text \<open>\<open>UPDATE memberships SET status='expired' WHERE status='active' AND end_date < CURDATE()\<close>\<close>

definition update_expire :: "int \<Rightarrow> database \<Rightarrow> unit \<times> database" where
  "update_expire today d = ((), d\<lparr>memberships := map (expire_row today) (memberships d)\<rparr>)"

definition activateExpireTasks :: "int \<Rightarrow> world \<Rightarrow> unit io" where
  "activateExpireTasks today w =
     (case execute (update_activate today) w of
        Inl ew \<Rightarrow> Inl ew
      | Inr (_, w1) \<Rightarrow> execute (update_expire today) w1)"

section \<open>Notifications: sendEmail and addNotification\<close>

text \<open>
  \<open>sendEmail\<close> returns at once without a transporter or an address; otherwise it awaits
  \<open>transporter.sendMail\<close> inside \<open>try\<close>, logs the success, and logs (and drops) a rejection.
  Of the body of the mail the model keeps the two variable parts, the greeting name and the message.
\<close>

definition sendEmail :: "config \<Rightarrow> string \<Rightarrow> string \<Rightarrow> string \<Rightarrow> string \<Rightarrow> world \<Rightarrow> world" where
  "sendEmail cfg to subject name msg w =
     (if \<not> transporter cfg \<or> to = [] then w
      else if smtp_up w
        then w\<lparr>console := console w @ [MailSent to subject],
               outbox := outbox w @
                 [\<lparr>mail_to = to, mail_subject = subject, mail_name = name, mail_message = msg\<rparr>]\<rparr>
        else w\<lparr>console := console w @ [MailSendFailed]\<rparr>)"

definition subject_for :: "string \<Rightarrow> string" where
  "subject_for type =
     (if type = ''renewal'' then ''Membership Renewal Reminder''
      else if type = ''attendance'' then ''We miss you at the gym''
      else if type = ''health'' then ''Health Tip''
      else ''Gym Notification'')"

text \<open>
  \<open>INSERT INTO notifications (user_id, type, message) VALUES (?, ?, ?)\<close>; the columns left
  out take their defaults: a fresh id, \<open>is_read = 0\<close>, \<open>created_at = current_timestamp()\<close>.
\<close>

definition new_notification :: "int \<Rightarrow> int \<Rightarrow> string \<Rightarrow> string \<Rightarrow> database \<Rightarrow> notification" where
  "new_notification now userId type msg d =
     \<lparr>n_id = auto_increment (map n_id (notifications d)), n_user_id = userId, n_type = type,
      message = msg, is_read = False, created_at = now\<rparr>"

definition insert_notification :: "int \<Rightarrow> int \<Rightarrow> string \<Rightarrow> string \<Rightarrow> database \<Rightarrow> unit \<times> database" where
  "insert_notification now userId type msg d =
     ((), d\<lparr>notifications := notifications d @ [new_notification now userId type msg d]\<rparr>)"

text \<open>\<open>SELECT email, name FROM users WHERE id=?\<close>, first row\<close>

definition select_user :: "int \<Rightarrow> database \<Rightarrow> user option" where
  "select_user userId d = find (\<lambda>u. u_id u = userId) (users d)"

text \<open>
  The INSERT is awaited outside the \<open>try\<close>: its rejection is the caller's. The lookup of the
  address and the mail are inside it: whatever fails there is logged and the call returns.
\<close>

definition addNotification :: "config \<Rightarrow> int \<Rightarrow> int \<Rightarrow> string \<Rightarrow> string \<Rightarrow> world \<Rightarrow> unit io" where
  "addNotification cfg now userId type msg w =
     (case execute (insert_notification now userId type msg) w of
        Inl ew \<Rightarrow> Inl ew
      | Inr (_, w1) \<Rightarrow>
          (case query (select_user userId) w1 of
             Inl (e, w2) \<Rightarrow> Inr ((), w2\<lparr>console := console w2 @ [EmailOnNotificationFailed]\<rparr>)
           | Inr (row, w2) \<Rightarrow>
               (case row of
                  None \<Rightarrow> Inr ((), w2)
                | Some u \<Rightarrow>
                    if u_email u \<noteq> []
                    then Inr ((), sendEmail cfg (u_email u) (subject_for type)
                                   (if u_name u = [] then ''Member'' else u_name u) msg w2)
                    else Inr ((), w2))))"

section \<open>The daily job: dailyNotificationTasks\<close>

text \<open>
  \<open>now\<close> is what \<open>NOW()\<close> returns in the database; a call takes one reading of that clock,
  so \<open>CURDATE()\<close> is \<open>DATE now\<close> and a row inserted by the call has \<open>created_at = now\<close>.
\<close>

record expiring_row =
  x_id :: int
  x_user_id :: int
  plan_name :: string
  x_end_date :: int

text \<open>
  \<open>SELECT m.id, u.id AS user_id, p.name AS plan_name, m.end_date
   FROM memberships m JOIN users u ON u.id=m.user_id JOIN membership_plans p ON p.id=m.plan_id
   WHERE u.is_active=1 AND m.status='active' AND DATEDIFF(m.end_date, CURDATE()) IN (3,1,0)\<close>
\<close>

definition select_expiring :: "int \<Rightarrow> database \<Rightarrow> expiring_row list" where
  "select_expiring today d =
     [\<lparr>x_id = m_id m, x_user_id = u_id u, plan_name = p_name p, x_end_date = end_date m\<rparr>.
        m \<leftarrow> memberships d,
        u \<leftarrow> users d, u_id u = m_user_id m,
        p \<leftarrow> membership_plans d, p_id p = m_plan_id m,
        u_is_active u \<and> status m = Active \<and> end_date m - today \<in> {3, 1, 0}]"

text \<open>
  \<open>SELECT id FROM notifications
   WHERE user_id=? AND type='renewal' AND DATE(created_at)=CURDATE() LIMIT 1\<close>
\<close>

definition select_recent_renewal :: "int \<Rightarrow> int \<Rightarrow> database \<Rightarrow> int option" where
  "select_recent_renewal now userId d =
     map_option n_id
       (find (\<lambda>n. n_user_id n = userId \<and> n_type n = ''renewal'' \<and> DATE (created_at n) = DATE now)
          (notifications d))"

text \<open>
  \<open>SELECT id FROM notifications
   WHERE user_id=? AND type='attendance' AND created_at >= (NOW() - INTERVAL 7 DAY) LIMIT 1\<close>
\<close>

definition select_recent_attendance :: "int \<Rightarrow> int \<Rightarrow> database \<Rightarrow> int option" where
  "select_recent_attendance now userId d =
     map_option n_id
       (find (\<lambda>n. n_user_id n = userId \<and> n_type n = ''attendance'' \<and> created_at n \<ge> now - days 7)
          (notifications d))"

text \<open>\<open>SELECT id FROM users WHERE role='member' AND is_active=1\<close>\<close>

definition select_members :: "database \<Rightarrow> int list" where
  "select_members d = map u_id (filter (\<lambda>u. u_role u = Member \<and> u_is_active u) (users d))"

text \<open>
  \<open>SELECT COUNT(*) AS cnt FROM attendance
   WHERE user_id=? AND DATE(check_in) >= (CURDATE() - INTERVAL 7 DAY)\<close>
\<close>

definition select_attendance_cnt :: "int \<Rightarrow> int \<Rightarrow> database \<Rightarrow> nat" where
  "select_attendance_cnt today userId d =
     length (filter (\<lambda>a. a_user_id a = userId \<and> DATE (check_in a) \<ge> today - 7) (attendance d))"

definition renewal_message :: "config \<Rightarrow> expiring_row \<Rightarrow> string" where
  "renewal_message cfg row =
     ''Your '' @ plan_name row @ '' membership expires on '' @ render_date cfg (x_end_date row)
       @ ''. Consider renewing.''"

text \<open>Body of the first loop: look for a renewal notification of today, insert one if there is none.\<close>

definition renewal_notifyOnce :: "config \<Rightarrow> int \<Rightarrow> expiring_row \<Rightarrow> world \<Rightarrow> unit io" where
  "renewal_notifyOnce cfg now row w =
     (case query (select_recent_renewal now (x_user_id row)) w of
        Inl ew \<Rightarrow> Inl ew
      | Inr (recent, w1) \<Rightarrow>
          (case recent of
             None \<Rightarrow> addNotification cfg now (x_user_id row) ''renewal'' (renewal_message cfg row) w1
           | Some _ \<Rightarrow> Inr ((), w1)))"

text \<open>Inner part of the second loop's body, reached when the count is below 2.\<close>

definition attendance_notifyOnce :: "config \<Rightarrow> int \<Rightarrow> int \<Rightarrow> world \<Rightarrow> unit io" where
  "attendance_notifyOnce cfg now userId w =
     (case query (select_recent_attendance now userId) w of
        Inl ew \<Rightarrow> Inl ew
      | Inr (recent, w1) \<Rightarrow>
          (case recent of
             None \<Rightarrow> addNotification cfg now userId ''attendance''
                       ''We miss you! Try to visit at least twice this week.'' w1
           | Some _ \<Rightarrow> Inr ((), w1)))"

definition attendance_step :: "config \<Rightarrow> int \<Rightarrow> int \<Rightarrow> world \<Rightarrow> unit io" where
  "attendance_step cfg now userId w =
     (case query (select_attendance_cnt (DATE now) userId) w of
        Inl ew \<Rightarrow> Inl ew
      | Inr (cnt, w1) \<Rightarrow>
          if cnt < 2 then attendance_notifyOnce cfg now userId w1 else Inr ((), w1))"

definition dailyNotificationTasks :: "config \<Rightarrow> int \<Rightarrow> world \<Rightarrow> unit io" where
  "dailyNotificationTasks cfg now w =
     (case query (select_expiring (DATE now)) (w\<lparr>daily_calls := Suc (daily_calls w)\<rparr>) of
        Inl ew \<Rightarrow> Inl ew
      | Inr (expiring, w1) \<Rightarrow>
          (case for_each (renewal_notifyOnce cfg now) expiring w1 of
             Inl ew \<Rightarrow> Inl ew
           | Inr (_, w2) \<Rightarrow>
               (case query select_members w2 of
                  Inl ew \<Rightarrow> Inl ew
                | Inr (members, w3) \<Rightarrow>
                    (case for_each (attendance_step cfg now) members w3 of
                       Inl ew \<Rightarrow> Inl ew
                     | Inr (_, w4) \<Rightarrow>
                         Inr ((), w4\<lparr>console := console w4 @ [DailyNotificationsComplete]\<rparr>)))))"

text \<open>
  The members for whom the second loop reaches the dedupe check: the rows of the members
  query whose count is below 2.
\<close>

definition low_attendance_members :: "int \<Rightarrow> database \<Rightarrow> int list" where
  "low_attendance_members today d =
     filter (\<lambda>userId. select_attendance_cnt today userId d < 2) (select_members d)"

text \<open>The rows the two dedupe checks look at: one calendar day, and everything since a moment.\<close>

definition renewal_rows_on :: "int \<Rightarrow> int \<Rightarrow> database \<Rightarrow> notification list" where
  "renewal_rows_on day userId d =
     filter (\<lambda>n. n_user_id n = userId \<and> n_type n = ''renewal'' \<and> DATE (created_at n) = day)
       (notifications d)"

definition attendance_rows_since :: "int \<Rightarrow> int \<Rightarrow> database \<Rightarrow> notification list" where
  "attendance_rows_since t userId d =
     filter (\<lambda>n. n_user_id n = userId \<and> n_type n = ''attendance'' \<and> created_at n \<ge> t)
       (notifications d)"

section \<open>The scheduler: todayKey, runHourlyTasks\<close>

text \<open>A JavaScript \<open>Date\<close> through the getters the scheduler calls (local time).\<close>

record jsdate =
  fullYear :: nat
  month :: nat
  date :: nat
  hours :: nat

definition digit :: "nat \<Rightarrow> char" where
  "digit n = ''0123456789'' ! n"

text \<open>\<open>String(n)\<close> of a natural number\<close>

function decimal :: "nat \<Rightarrow> string" where
  "decimal n = (if n < 10 then [digit n] else decimal (n div 10) @ [digit (n mod 10)])"
  by pat_completeness auto
termination
  by (relation "measure (\<lambda>n. n)") auto

declare decimal.simps [simp del]

definition padStart2 :: "string \<Rightarrow> string" where
  "padStart2 s = replicate (2 - length s) CHR ''0'' @ s"

definition todayKey :: "jsdate \<Rightarrow> string" where
  "todayKey d =
     decimal (fullYear d) @ ''-'' @ padStart2 (decimal (month d + 1)) @ ''-''
       @ padStart2 (decimal (date d))"

text \<open>
  One run of the cron callback. \<open>now\<close> is what \<open>new Date()\<close> returns in the process,
  \<open>sql_now\<close> what \<open>NOW()\<close> returns in the database during this run.
\<close>

definition runHourlyTasks :: "config \<Rightarrow> jsdate \<Rightarrow> int \<Rightarrow> world \<Rightarrow> world" where
  "runHourlyTasks cfg now sql_now w =
     (case activateExpireTasks (DATE sql_now) w of
        Inl (e, w1) \<Rightarrow> w1\<lparr>console := console w1 @ [HourlyTasksError]\<rparr>
      | Inr (_, w1) \<Rightarrow>
          if int (hours now) \<ge> DAILY_RUN_HOUR cfg \<and> lastDailyRunKey w1 \<noteq> Some (todayKey now)
          then (case dailyNotificationTasks cfg sql_now w1 of
                  Inl (e, w2) \<Rightarrow> w2\<lparr>console := console w2 @ [HourlyTasksError]\<rparr>
                | Inr (_, w2) \<Rightarrow> w2\<lparr>lastDailyRunKey := Some (todayKey now)\<rparr>)
          else w1)"

text \<open>
  A tick of \<open>cron.schedule('0 * * * *', ...)\<close>: the two clocks, how the store and the mail
  transport behave during the run, and what the routes did to the tables since the tick before.
\<close>

record tick =
  js_now :: jsdate
  sql_now :: int
  tick_budget :: "nat option"
  tick_smtp :: bool
  requests :: "database \<Rightarrow> database"

definition arrive :: "tick \<Rightarrow> world \<Rightarrow> world" where
  "arrive t w = w\<lparr>db := requests t (db w), budget := tick_budget t, smtp_up := tick_smtp t\<rparr>"

definition hourly_tick :: "config \<Rightarrow> tick \<Rightarrow> world \<Rightarrow> world" where
  "hourly_tick cfg t w = runHourlyTasks cfg (js_now t) (sql_now t) (arrive t w)"

definition run_ticks :: "config \<Rightarrow> tick list \<Rightarrow> world \<Rightarrow> world" where
  "run_ticks cfg ts w = fold (hourly_tick cfg) ts w"

text \<open>The number of times the daily job ran to its last line.\<close>

definition completions :: "world \<Rightarrow> nat" where
  "completions w = length (filter (\<lambda>l. l = DailyNotificationsComplete) (console w))"

text \<open>The condition of the \<open>if\<close> in \<open>runHourlyTasks\<close>, which the specification calls shouldRunDaily.\<close>

definition shouldRunDaily :: "config \<Rightarrow> jsdate \<Rightarrow> string option \<Rightarrow> bool" where
  "shouldRunDaily cfg now lastKey \<longleftrightarrow>
     int (hours now) \<ge> DAILY_RUN_HOUR cfg \<and> lastKey \<noteq> Some (todayKey now)"

text \<open>How a call ended: the state it left, and whether it returned or threw.\<close>

definition final :: "'a io \<Rightarrow> world" where
  "final r = (case r of Inl (e, w) \<Rightarrow> w | Inr (x, w) \<Rightarrow> w)"

definition returned :: "'a io \<Rightarrow> bool" where
  "returned r = (case r of Inl _ \<Rightarrow> False | Inr _ \<Rightarrow> True)"

text \<open>
  At a tick the daily job is entered when the lifecycle step returned and the condition
  holds; it completes when, entered, it returns.
\<close>

definition entered :: "config \<Rightarrow> tick \<Rightarrow> world \<Rightarrow> bool" where
  "entered cfg t w \<longleftrightarrow>
     returned (activateExpireTasks (DATE (sql_now t)) (arrive t w)) \<and>
     shouldRunDaily cfg (js_now t) (lastDailyRunKey w)"

definition completed :: "config \<Rightarrow> tick \<Rightarrow> world \<Rightarrow> bool" where
  "completed cfg t w \<longleftrightarrow>
     entered cfg t w \<and>
     returned (dailyNotificationTasks cfg (sql_now t)
                 (final (activateExpireTasks (DATE (sql_now t)) (arrive t w))))"

text \<open>What the gate is about: the key, the entries into the daily job, its completions.\<close>

definition progress :: "world \<Rightarrow> string option \<times> nat \<times> nat" where
  "progress w = (lastDailyRunKey w, daily_calls w, completions w)"

section \<open>POST /subscribe\<close>

datatype response = Redirect string | Send nat string

text \<open>\<open>SELECT * FROM membership_plans WHERE id=?\<close>, first row\<close>

definition select_plan :: "int \<Rightarrow> database \<Rightarrow> membership_plan option" where
  "select_plan plan_id d = find (\<lambda>p. p_id p = plan_id) (membership_plans d)"

text \<open>
  \<open>SELECT * FROM memberships WHERE user_id=? AND status='active' AND end_date >= CURDATE()
   ORDER BY end_date DESC LIMIT 1\<close>
\<close>

definition active_rows :: "int \<Rightarrow> int \<Rightarrow> database \<Rightarrow> membership list" where
  "active_rows today userId d =
     filter (\<lambda>m. m_user_id m = userId \<and> status m = Active \<and> end_date m \<ge> today) (memberships d)"

definition select_active :: "int \<Rightarrow> int \<Rightarrow> database \<Rightarrow> membership option" where
  "select_active today userId d =
     (case sort_key (\<lambda>m. - end_date m) (active_rows today userId d) of
        [] \<Rightarrow> None
      | m # _ \<Rightarrow> Some m)"

text \<open>\<open>INSERT INTO memberships (user_id, plan_id, start_date, end_date, status) VALUES (...)\<close>\<close>

definition insert_membership :: "int \<Rightarrow> int \<Rightarrow> int \<Rightarrow> int \<Rightarrow> status \<Rightarrow> database \<Rightarrow> unit \<times> database" where
  "insert_membership userId planId start end st d =
     ((), d\<lparr>memberships := memberships d @
        [\<lparr>m_id = auto_increment (map m_id (memberships d)), m_user_id = userId,
          m_plan_id = planId, start_date = start, end_date = end, status = st\<rparr>]\<rparr>)"

definition server_error :: "world \<Rightarrow> response \<times> world" where
  "server_error w = (Send 500 ''Server error'', w\<lparr>console := console w @ [ServerError]\<rparr>)"

definition subscribe :: "int \<Rightarrow> int \<Rightarrow> int \<Rightarrow> world \<Rightarrow> response \<times> world" where
  "subscribe today userId plan_id w =
     (case query (select_plan plan_id) w of
        Inl (e, w1) \<Rightarrow> server_error w1
      | Inr (None, w1) \<Rightarrow> (Send 400 ''Plan not found'', w1)
      | Inr (Some plan, w1) \<Rightarrow>
          (case query (select_active today userId) w1 of
             Inl (e, w2) \<Rightarrow> server_error w2
           | Inr (Some act, w2) \<Rightarrow>
               (case execute (insert_membership userId (p_id plan) (end_date act + 1)
                                ((end_date act + 1) + (duration_days plan - 1)) Pending) w2 of
                  Inl (e, w3) \<Rightarrow> server_error w3
                | Inr (_, w3) \<Rightarrow> (Redirect ''/dashboard'', w3))
           | Inr (None, w2) \<Rightarrow>
               (case execute (insert_membership userId (p_id plan) today
                                (today + (duration_days plan - 1)) Active) w2 of
                  Inl (e, w3) \<Rightarrow> server_error w3
                | Inr (_, w3) \<Rightarrow> (Redirect ''/dashboard'', w3))))"

section \<open>calcBMI\<close>

text \<open>
  The values \<open>calcBMI\<close> is called with: \<open>null\<close>, a number, or a string (the driver returns a
  DECIMAL column as text). A number is NaN, an infinity, or finite; a finite double is
  written as the rational it stands for (both zeros are 0). What the rounded operations of
  double arithmetic return is not modelled: they are parameters.
\<close>

datatype number = NaN | PosInfinity | NegInfinity | Finite rat






section \<open>Schema constraints and the queries as the specification words them\<close>

text \<open>
  The PRIMARY KEY of \<open>users\<close> and of \<open>membership_plans\<close>, and the two FOREIGN KEY constraints
  of \<open>memberships\<close> (\<open>fk_memberships_user\<close>, \<open>fk_memberships_plan\<close>), which InnoDB enforces.
\<close>

definition primary_keys :: "database \<Rightarrow> bool" where
  "primary_keys d \<longleftrightarrow> distinct (map u_id (users d)) \<and> distinct (map p_id (membership_plans d))"

definition foreign_keys :: "database \<Rightarrow> bool" where
  "foreign_keys d \<longleftrightarrow>
     (\<forall>m \<in> set (memberships d).
        select_user (m_user_id m) d \<noteq> None \<and> select_plan (m_plan_id m) d \<noteq> None)"

text \<open>
  The renewal query in the specification's words: the active memberships 3, 1 or 0 days
  before their end date whose owner is not deactivated, each with the name of its plan.
\<close>

definition findDueRenewalReminders :: "int \<Rightarrow> database \<Rightarrow> expiring_row list" where
  "findDueRenewalReminders today d =
     map (\<lambda>m. \<lparr>x_id = m_id m, x_user_id = m_user_id m,
               plan_name = (case select_plan (m_plan_id m) d of Some p \<Rightarrow> p_name p | None \<Rightarrow> []),
               x_end_date = end_date m\<rparr>)
       (filter (\<lambda>m. status m = Active \<and> end_date m - today \<in> {3, 1, 0} \<and>
                    (case select_user (m_user_id m) d of Some u \<Rightarrow> u_is_active u | None \<Rightarrow> False))
          (memberships d))"

text \<open>
  The attendance count in the specification's words: the entries of the trailing window,
  today included, the day \<open>today - 7\<close> excluded.
\<close>

definition attendance_count_spec :: "int \<Rightarrow> int \<Rightarrow> database \<Rightarrow> nat" where
  "attendance_count_spec today userId d =
     length (filter (\<lambda>a. a_user_id a = userId \<and> today - 7 < DATE (check_in a)
                          \<and> DATE (check_in a) \<le> today) (attendance d))"

section \<open>Example data\<close>

definition empty_db :: database where
  "empty_db = \<lparr>users = [], membership_plans = [], memberships = [], attendance = [],
               notifications = []\<rparr>"

text \<open>The process as it starts (\<open>lastDailyRunKey = null\<close>) over a store that answers.\<close>

definition started :: "database \<Rightarrow> world" where
  "started d = \<lparr>db = d, budget = None, smtp_up = True, console = [], outbox = [],
                lastDailyRunKey = None, daily_calls = 0\<rparr>"

definition ann :: user where
  "ann = \<lparr>u_id = 1, u_name = ''Ann'', u_email = ''ann@gym.local'', u_role = Member,
          u_is_active = True\<rparr>"

definition bob :: user where
  "bob = \<lparr>u_id = 2, u_name = ''Bob'', u_email = ''bob@gym.local'', u_role = Member,
          u_is_active = False\<rparr>"

definition monthly :: membership_plan where
  "monthly = \<lparr>p_id = 1, p_name = ''Monthly'', duration_days = 30\<rparr>"

definition membership_of :: "int \<Rightarrow> int \<Rightarrow> int \<Rightarrow> int \<Rightarrow> status \<Rightarrow> membership" where
  "membership_of i userId start end st =
     \<lparr>m_id = i, m_user_id = userId, m_plan_id = 1, start_date = start, end_date = end, status = st\<rparr>"

text \<open>
  Day 20: Ann's membership ends in 3 days and her next one is pending; Bob, deactivated,
  holds one that ends tomorrow and one that ended on day 12.
\<close>

definition gym_db :: database where
  "gym_db = \<lparr>users = [ann, bob], membership_plans = [monthly],
              memberships = [membership_of 1 1 (-6) 23 Active, membership_of 2 1 24 53 Pending,
                             membership_of 3 2 (-8) 21 Active, membership_of 4 2 (-17) 12 Active,
                             membership_of 5 2 20 49 Pending],
              attendance = [], notifications = []\<rparr>"

text \<open>A pending membership whose whole period has passed by day 20.\<close>

definition lapsed_db :: database where
  "lapsed_db = empty_db\<lparr>memberships := [membership_of 1 1 10 12 Pending]\<rparr>"

text \<open>
  The configuration of the examples, and the tick of hour \<open>h\<close> on 2 November 2026, which the
  database counts as day 20.
\<close>

definition gym_config :: config where
  "gym_config = \<lparr>DAILY_RUN_HOUR = 9, transporter = True,
                  render_date = (\<lambda>d. ''day '' @ decimal (nat d))\<rparr>"

definition tick_at :: "nat \<Rightarrow> nat option \<Rightarrow> tick" where
  "tick_at h b = \<lparr>js_now = \<lparr>fullYear = 2026, month = 10, date = 2, hours = h\<rparr>,
                  sql_now = days 20 + int h * 3600, tick_budget = b, tick_smtp = True,
                  requests = (\<lambda>d. d)\<rparr>"

definition ann_row :: expiring_row where
  "ann_row = \<lparr>x_id = 1, x_user_id = 1, plan_name = ''Monthly'', x_end_date = 23\<rparr>"

text \<open>Nine in the morning of day \<open>n\<close>.\<close>

definition morning :: "int \<Rightarrow> int" where
  "morning n = days n + 9 * 3600"

definition cat :: user where
  "cat = \<lparr>u_id = 3, u_name = ''Cat'', u_email = ''cat@gym.local'', u_role = Member,
          u_is_active = True\<rparr>"

definition dan :: user where
  "dan = \<lparr>u_id = 4, u_name = ''Dan'', u_email = ''dan@gym.local'', u_role = Admin,
          u_is_active = True\<rparr>"

definition visit :: "int \<Rightarrow> int \<Rightarrow> int \<Rightarrow> attendance_entry" where
  "visit i userId day = \<lparr>a_id = i, a_user_id = userId, check_in = morning day\<rparr>"

text \<open>
  Day 20: Ann came once in the last days, Cat twice, Bob (deactivated) and Dan (an admin)
  never.
\<close>

definition attendance_db :: database where
  "attendance_db = empty_db\<lparr>users := [ann, bob, cat, dan],
                             attendance := [visit 1 1 18, visit 2 3 15, visit 3 3 19,
                                            visit 4 1 2]\<rparr>"

text \<open>Day 20: both of Ann's visits were on day 13.\<close>

definition boundary_db :: database where
  "boundary_db = empty_db\<lparr>users := [ann], attendance := [visit 1 1 13, visit 2 1 13]\<rparr>"


section \<open>The store without faults\<close>

lemma execute_None:
  "budget w = None \<Longrightarrow> execute stmt w = Inr (fst (stmt (db w)), w\<lparr>db := snd (stmt (db w))\<rparr>)"
  by (simp add: execute_def split: prod.splits)

lemma query_None: "budget w = None \<Longrightarrow> query q w = Inr (q (db w), w)"
  by (simp add: query_def execute_None)

section \<open>Properties of the lifecycle transitions\<close>

lemma activateExpireTasks_None:
  "budget w = None \<Longrightarrow>
     activateExpireTasks today w =
       Inr ((), w\<lparr>db := (db w)\<lparr>memberships :=
                    map (\<lambda>m. expire_row today (activate_row today m)) (memberships (db w))\<rparr>\<rparr>)"
  by (simp add: activateExpireTasks_def execute_None update_activate_def update_expire_def comp_def)

lemma lifecycle_row_status:
  "expire_row today (activate_row today m) =
     m\<lparr>status :=
         (if status m = Pending \<and> start_date m \<le> today
          then (if end_date m < today then Expired else Active)
          else if status m = Active \<and> end_date m < today then Expired
          else status m)\<rparr>"
  by (simp add: expire_row_def activate_row_def)

lemma lifecycle_row_idem:
  "expire_row today (activate_row today (expire_row today (activate_row today m))) =
     expire_row today (activate_row today m)"
  by (simp add: expire_row_def activate_row_def)

text \<open>
  C1, as the code has it. While the store answers, \<open>activateExpireTasks\<close> returns, changes
  nothing but the status column of \<open>memberships\<close>, and row by row: a pending membership with
  \<open>start_date \<le> today\<close> becomes active when \<open>end_date \<ge> today\<close> and expired when
  \<open>end_date < today\<close> (the second UPDATE sees the rows the first one activated); an active
  membership with \<open>end_date < today\<close> becomes expired; every other membership keeps its status.
\<close>

theorem activateExpireTasks_transitions:
  assumes "budget w = None"
  shows "\<exists>w'. activateExpireTasks today w = Inr ((), w') \<and>
           w' = w\<lparr>db := (db w)\<lparr>memberships := memberships (db w')\<rparr>\<rparr> \<and>
           length (memberships (db w')) = length (memberships (db w)) \<and>
           (\<forall>i < length (memberships (db w)).
              memberships (db w') ! i =
                (memberships (db w) ! i)\<lparr>status :=
                   (if status (memberships (db w) ! i) = Pending
                         \<and> start_date (memberships (db w) ! i) \<le> today
                    then (if end_date (memberships (db w) ! i) < today then Expired else Active)
                    else if status (memberships (db w) ! i) = Active
                         \<and> end_date (memberships (db w) ! i) < today
                    then Expired
                    else status (memberships (db w) ! i))\<rparr>)"
  using assms by (simp add: activateExpireTasks_None lifecycle_row_status)

theorem activateExpireTasks_transitions_witness:
  "budget (started gym_db) = None \<and>
   (\<exists>w'. activateExpireTasks 20 (started gym_db) = Inr ((), w') \<and>
      map status (memberships (db w')) = [Active, Pending, Active, Expired, Active])"
  using activateExpireTasks_transitions [of "started gym_db" 20]
  by (simp add: started_def gym_db_def membership_of_def activateExpireTasks_None
      expire_row_def activate_row_def)

text \<open>
  C1 as stated fails: on day 20 a pending membership for days 10 to 12 has
  \<open>start_date \<le> today\<close>, and after the call it is expired, not active.
\<close>

theorem activateExpireTasks_pending_counterexample:
  "status (membership_of 1 1 10 12 Pending) = Pending \<and>
   start_date (membership_of 1 1 10 12 Pending) \<le> 20 \<and>
   activateExpireTasks 20 (started lapsed_db) =
     Inr ((), started (empty_db\<lparr>memberships := [membership_of 1 1 10 12 Expired]\<rparr>))"
  by (simp add: started_def lapsed_db_def empty_db_def membership_of_def activateExpireTasks_None
      expire_row_def activate_row_def)

text \<open>
  C4. While the store answers, a second \<open>activateExpireTasks\<close> with the same \<open>today\<close>
  returns and leaves the state the first call produced as it is.
\<close>

theorem activateExpireTasks_idempotent:
  assumes "budget w = None"
  shows "\<exists>w1. activateExpireTasks today w = Inr ((), w1) \<and>
           activateExpireTasks today w1 = Inr ((), w1)"
  using assms by (simp add: activateExpireTasks_None lifecycle_row_idem comp_def)

theorem activateExpireTasks_idempotent_witness:
  "budget (started lapsed_db) = None \<and>
   (\<exists>w1. activateExpireTasks 20 (started lapsed_db) = Inr ((), w1) \<and>
      activateExpireTasks 20 w1 = Inr ((), w1) \<and>
      map status (memberships (db w1)) = [Expired])"
  using activateExpireTasks_idempotent [of "started lapsed_db" 20]
  by (simp add: started_def lapsed_db_def empty_db_def membership_of_def activateExpireTasks_None
      expire_row_def activate_row_def)

section \<open>Properties of the renewal query\<close>

lemma join_no_match:
  "k \<notin> key ` set xs \<Longrightarrow> concat (map (\<lambda>x. if key x = k then f x else []) xs) = []"
  by (induction xs) auto

lemma join_unique_key:
  "distinct (map key xs) \<Longrightarrow>
     concat (map (\<lambda>x. if key x = k then f x else []) xs) =
       (case find (\<lambda>x. key x = k) xs of None \<Rightarrow> [] | Some x \<Rightarrow> f x)"
proof (induction xs)
  case Nil
  then show ?case by simp
next
  case (Cons x xs)
  show ?case
  proof (cases "key x = k")
    case True
    with Cons.prems have "k \<notin> key ` set xs" by auto
    then have "concat (map (\<lambda>x. if key x = k then f x else []) xs) = []"
      by (rule join_no_match)
    with True show ?thesis by simp
  next
    case False
    with Cons show ?thesis by simp
  qed
qed

lemma concat_map_filter:
  "map g (filter P xs) = concat (map (\<lambda>x. if P x then [g x] else []) xs)"
  by (induction xs) auto

lemma find_key: "find (\<lambda>x. key x = k) xs = Some x \<Longrightarrow> key x = k"
  by (induction xs) (auto split: if_splits)

text \<open>With unique ids each JOIN is a lookup: a membership contributes at most one row.\<close>

lemma select_expiring_joined:
  assumes "primary_keys d"
  shows "select_expiring today d =
           concat (map (\<lambda>m. case select_user (m_user_id m) d of
                               None \<Rightarrow> []
                             | Some u \<Rightarrow>
                                 (case select_plan (m_plan_id m) d of
                                    None \<Rightarrow> []
                                  | Some p \<Rightarrow>
                                      if u_is_active u \<and> status m = Active
                                           \<and> end_date m - today \<in> {3, 1, 0}
                                      then [\<lparr>x_id = m_id m, x_user_id = u_id u, plan_name = p_name p,
                                             x_end_date = end_date m\<rparr>]
                                      else []))
                     (memberships d))"
proof -
  from assms have du: "distinct (map u_id (users d))"
    and dp: "distinct (map p_id (membership_plans d))"
    by (simp_all add: primary_keys_def)
  show ?thesis
    unfolding select_expiring_def select_user_def select_plan_def
    by (simp add: join_unique_key [OF du] join_unique_key [OF dp] cong: option.case_cong)
qed

text \<open>
  C6. In a database that satisfies the schema's key constraints, the renewal query of
  \<open>dailyNotificationTasks\<close> returns one row for each membership that is active, ends in 3, 1
  or 0 days and belongs to a user with \<open>is_active\<close> set, with the name of its plan, and no
  other row.
\<close>

theorem select_expiring_exact:
  assumes "primary_keys d" and "foreign_keys d"
  shows "select_expiring today d = findDueRenewalReminders today d"
proof -
  have pointwise: "concat (map F ms) = concat (map G ms)"
    if "\<forall>m \<in> set ms. F m = G m" for F G :: "membership \<Rightarrow> expiring_row list" and ms
    using that by (induction ms) auto
  have owner: "u_id u = m_user_id m" if "select_user (m_user_id m) d = Some u" for u m
    using that unfolding select_user_def by (rule find_key)
  show ?thesis
    unfolding select_expiring_joined [OF assms(1)] findDueRenewalReminders_def concat_map_filter
    using assms(2)
    by (intro pointwise) (auto simp: foreign_keys_def owner split: option.splits)
qed

theorem select_expiring_exact_witness:
  "primary_keys gym_db \<and> foreign_keys gym_db \<and>
   select_expiring 20 gym_db =
     [\<lparr>x_id = 1, x_user_id = 1, plan_name = ''Monthly'', x_end_date = 23\<rparr>]"
proof -
  have pk: "primary_keys gym_db"
    by (simp add: primary_keys_def gym_db_def ann_def bob_def monthly_def)
  have fk: "foreign_keys gym_db"
    by (simp add: foreign_keys_def select_user_def select_plan_def gym_db_def ann_def bob_def
        monthly_def membership_of_def)
  have "findDueRenewalReminders 20 gym_db =
          [\<lparr>x_id = 1, x_user_id = 1, plan_name = ''Monthly'', x_end_date = 23\<rparr>]"
    by (simp add: findDueRenewalReminders_def select_user_def select_plan_def gym_db_def ann_def
        bob_def monthly_def membership_of_def)
  with pk fk select_expiring_exact [OF pk fk, of 20] show ?thesis by simp
qed

section \<open>Evaluating the model on the examples\<close>

lemmas model_defs =
  run_ticks_def hourly_tick_def arrive_def runHourlyTasks_def activateExpireTasks_def
  execute_def query_def update_activate_def update_expire_def activate_row_def expire_row_def
  DATE_def days_def dailyNotificationTasks_def select_expiring_def renewal_notifyOnce_def
  select_recent_renewal_def addNotification_def insert_notification_def new_notification_def
  select_user_def sendEmail_def subject_for_def renewal_message_def select_members_def
  attendance_step_def attendance_notifyOnce_def select_attendance_cnt_def
  select_recent_attendance_def auto_increment_def todayKey_def padStart2_def decimal.simps
  digit_def completions_def low_attendance_members_def subscribe_def select_plan_def
  select_active_def active_rows_def insert_membership_def final_def

lemmas example_defs =
  started_def empty_db_def gym_db_def gym_config_def tick_at_def membership_of_def ann_def
  bob_def cat_def dan_def monthly_def ann_row_def morning_def visit_def attendance_db_def
  boundary_db_def

section \<open>Properties of addNotification\<close>

lemma select_user_insert [simp]:
  "select_user userId (snd (insert_notification now u type msg d)) = select_user userId d"
  by (simp add: select_user_def insert_notification_def)

lemma sendEmail_frame:
  "db (sendEmail cfg to subject name msg w) = db w"
  "budget (sendEmail cfg to subject name msg w) = budget w"
  "\<not> smtp_up w \<Longrightarrow> outbox (sendEmail cfg to subject name msg w) = outbox w"
  by (simp_all add: sendEmail_def)

lemma addNotification_None:
  assumes "budget w = None"
  shows "\<exists>w'. addNotification cfg now userId type msg w = Inr ((), w') \<and>
           db w' = (db w)\<lparr>notifications := notifications (db w) @
                      [new_notification now userId type msg (db w)]\<rparr> \<and>
           budget w' = None"
  using assms
  by (simp add: addNotification_def execute_None query_None insert_notification_def
        new_notification_def select_user_def sendEmail_frame split: option.splits)

text \<open>
  C7. Whenever the store accepts the INSERT, \<open>addNotification\<close> returns to its caller with
  the new row appended to \<open>notifications\<close> and nothing else in the tables changed, whatever
  the lookup of the address and the mail transport do afterwards; when the transport is
  down no mail leaves.
\<close>

theorem addNotification_keeps_row:
  assumes "budget w \<noteq> Some 0"
  shows "\<exists>w'. addNotification cfg now userId type msg w = Inr ((), w') \<and>
           db w' = (db w)\<lparr>notifications := notifications (db w) @
                      [new_notification now userId type msg (db w)]\<rparr> \<and>
           (\<not> smtp_up w \<longrightarrow> outbox w' = outbox w)"
proof (cases "budget w")
  case None
  then show ?thesis
    by (simp add: addNotification_def execute_None query_None insert_notification_def
        new_notification_def select_user_def sendEmail_frame split: option.splits)
next
  case (Some k)
  with assms obtain j where k: "k = Suc j" by (cases k) auto
  show ?thesis
  proof (cases j)
    case 0
    with Some k show ?thesis
      by (simp add: addNotification_def execute_def query_def insert_notification_def
          new_notification_def)
  next
    case (Suc i)
    with Some k show ?thesis
      by (simp add: addNotification_def execute_def query_def insert_notification_def
          new_notification_def select_user_def sendEmail_frame split: option.splits)
  qed
qed

theorem addNotification_keeps_row_witness:
  "budget ((started gym_db)\<lparr>smtp_up := False\<rparr>) \<noteq> Some 0 \<and>
   \<not> smtp_up ((started gym_db)\<lparr>smtp_up := False\<rparr>) \<and>
   (\<exists>w'. addNotification gym_config (morning 20) 1 ''renewal'' ''Renew''
            ((started gym_db)\<lparr>smtp_up := False\<rparr>) = Inr ((), w') \<and>
         db w' = (db ((started gym_db)\<lparr>smtp_up := False\<rparr>))
                   \<lparr>notifications := notifications (db ((started gym_db)\<lparr>smtp_up := False\<rparr>)) @
                      [new_notification (morning 20) 1 ''renewal'' ''Renew''
                         (db ((started gym_db)\<lparr>smtp_up := False\<rparr>))]\<rparr> \<and>
         (\<not> smtp_up ((started gym_db)\<lparr>smtp_up := False\<rparr>) \<longrightarrow>
            outbox w' = outbox ((started gym_db)\<lparr>smtp_up := False\<rparr>))) \<and>
   addNotification gym_config (morning 20) 1 ''renewal'' ''Renew''
       ((started gym_db)\<lparr>smtp_up := False\<rparr>) =
     Inr ((), (started (gym_db\<lparr>notifications :=
                 [\<lparr>n_id = 1, n_user_id = 1, n_type = ''renewal'', message = ''Renew'',
                   is_read = False, created_at = 1760400\<rparr>]\<rparr>))
                \<lparr>smtp_up := False, console := [MailSendFailed]\<rparr>)"
proof -
  have h: "budget ((started gym_db)\<lparr>smtp_up := False\<rparr>) \<noteq> Some 0"
    by (simp add: started_def)
  have down: "\<not> smtp_up ((started gym_db)\<lparr>smtp_up := False\<rparr>)"
    by simp
  note kept = addNotification_keeps_row [OF h, of gym_config "morning 20" 1 "''renewal''" "''Renew''"]
  have run: "addNotification gym_config (morning 20) 1 ''renewal'' ''Renew''
       ((started gym_db)\<lparr>smtp_up := False\<rparr>) =
     Inr ((), (started (gym_db\<lparr>notifications :=
                 [\<lparr>n_id = 1, n_user_id = 1, n_type = ''renewal'', message = ''Renew'',
                   is_read = False, created_at = 1760400\<rparr>]\<rparr>))
                \<lparr>smtp_up := False, console := [MailSendFailed]\<rparr>)"
    by (simp add: model_defs example_defs)
  show ?thesis by (intro conjI h down kept run)
qed

section \<open>Properties of the dedupe checks\<close>

lemma find_None_filter: "find P xs = None \<longleftrightarrow> filter P xs = []"
  by (induction xs) auto

lemma recent_renewal_rows:
  "select_recent_renewal now userId d = None \<longleftrightarrow> renewal_rows_on (DATE now) userId d = []"
  by (simp add: select_recent_renewal_def renewal_rows_on_def find_None_filter)

lemma recent_attendance_rows:
  "select_recent_attendance now userId d = None \<longleftrightarrow>
     attendance_rows_since (now - days 7) userId d = []"
  by (simp add: select_recent_attendance_def attendance_rows_since_def find_None_filter)

lemma renewal_notifyOnce_None:
  "budget w = None \<Longrightarrow>
     renewal_notifyOnce cfg now row w =
       (if renewal_rows_on (DATE now) (x_user_id row) (db w) = []
        then addNotification cfg now (x_user_id row) ''renewal'' (renewal_message cfg row) w
        else Inr ((), w))"
  by (auto simp: renewal_notifyOnce_def query_None recent_renewal_rows [symmetric]
      split: option.splits)

lemma attendance_notifyOnce_None:
  "budget w = None \<Longrightarrow>
     attendance_notifyOnce cfg now userId w =
       (if attendance_rows_since (now - days 7) userId (db w) = []
        then addNotification cfg now userId ''attendance''
               ''We miss you! Try to visit at least twice this week.'' w
        else Inr ((), w))"
  by (auto simp: attendance_notifyOnce_def query_None recent_attendance_rows [symmetric]
      split: option.splits)

lemma renewal_rows_insert:
  "renewal_rows_on day userId
     (d\<lparr>notifications := notifications d @ [new_notification now userId ''renewal'' msg d]\<rparr>) =
   renewal_rows_on day userId d @
     (if DATE now = day then [new_notification now userId ''renewal'' msg d] else [])"
  by (simp add: renewal_rows_on_def new_notification_def)

lemma attendance_rows_insert:
  "attendance_rows_since t userId
     (d\<lparr>notifications := notifications d @ [new_notification now userId ''attendance'' msg d]\<rparr>) =
   attendance_rows_since t userId d @
     (if t \<le> now then [new_notification now userId ''attendance'' msg d] else [])"
  by (simp add: attendance_rows_since_def new_notification_def)

lemma attendance_rows_mono:
  "t \<le> t' \<Longrightarrow> attendance_rows_since t userId d = [] \<Longrightarrow> attendance_rows_since t' userId d = []"
  by (auto simp: attendance_rows_since_def filter_empty_conv)

lemma renewal_twice:
  assumes "budget w = None" and "x_user_id row2 = x_user_id row1" and "DATE now2 = DATE now1"
  shows "\<exists>w1. renewal_notifyOnce cfg now1 row1 w = Inr ((), w1) \<and>
           renewal_notifyOnce cfg now2 row2 w1 = Inr ((), w1) \<and>
           length (renewal_rows_on (DATE now1) (x_user_id row1) (db w1)) =
             max 1 (length (renewal_rows_on (DATE now1) (x_user_id row1) (db w)))"
proof (cases "renewal_rows_on (DATE now1) (x_user_id row1) (db w) = []")
  case True
  from addNotification_None [OF assms(1), of cfg now1 "x_user_id row1" "''renewal''" "renewal_message cfg row1"]
  obtain w1 where w1: "addNotification cfg now1 (x_user_id row1) ''renewal'' (renewal_message cfg row1) w = Inr ((), w1)"
    "db w1 = (db w)\<lparr>notifications := notifications (db w) @
                      [new_notification now1 (x_user_id row1) ''renewal'' (renewal_message cfg row1) (db w)]\<rparr>"
    "budget w1 = None" by blast
  have first: "renewal_notifyOnce cfg now1 row1 w = Inr ((), w1)"
    using True w1(1) assms(1) by (simp add: renewal_notifyOnce_None)
  have rows: "renewal_rows_on (DATE now1) (x_user_id row1) (db w1) =
      [new_notification now1 (x_user_id row1) ''renewal'' (renewal_message cfg row1) (db w)]"
    using True by (simp add: w1(2) renewal_rows_insert)
  have second: "renewal_notifyOnce cfg now2 row2 w1 = Inr ((), w1)"
    using rows w1(3) assms(2,3) by (simp add: renewal_notifyOnce_None)
  from first second rows True show ?thesis by simp
next
  case False
  then have "length (renewal_rows_on (DATE now1) (x_user_id row1) (db w)) \<ge> 1"
    by (cases "renewal_rows_on (DATE now1) (x_user_id row1) (db w)") auto
  with False assms show ?thesis by (simp add: renewal_notifyOnce_None)
qed

lemma attendance_first:
  assumes "budget w = None" and "attendance_rows_since (now1 - days 7) userId (db w) = []"
  shows "\<exists>w1. attendance_notifyOnce cfg now1 userId w = Inr ((), w1) \<and> budget w1 = None \<and>
           db w1 = (db w)\<lparr>notifications := notifications (db w) @
                     [new_notification now1 userId ''attendance''
                        ''We miss you! Try to visit at least twice this week.'' (db w)]\<rparr>"
  using addNotification_None [OF assms(1), of cfg now1 userId "''attendance''"
      "''We miss you! Try to visit at least twice this week.''"] assms
  by (auto simp: attendance_notifyOnce_None)

lemma attendance_any:
  assumes "budget w = None"
  shows "\<exists>w1. attendance_notifyOnce cfg now userId w = Inr ((), w1) \<and> budget w1 = None \<and>
           length (notifications (db w1)) \<le> Suc (length (notifications (db w))) \<and>
           (attendance_rows_since (now - days 7) userId (db w) \<noteq> [] \<longrightarrow> w1 = w)"
proof (cases "attendance_rows_since (now - days 7) userId (db w) = []")
  case True
  from attendance_first [OF assms True, of cfg] True show ?thesis by auto
next
  case False
  with assms show ?thesis by (simp add: attendance_notifyOnce_None)
qed

lemma attendance_within:
  assumes "budget w = None" and "now1 \<le> now2" and "now2 \<le> now1 + days 7"
  shows "\<exists>w1 w2. attendance_notifyOnce cfg now1 userId w = Inr ((), w1) \<and>
           attendance_notifyOnce cfg now2 userId w1 = Inr ((), w2) \<and>
           length (notifications (db w2)) \<le> Suc (length (notifications (db w))) \<and>
           (attendance_rows_since (now1 - days 7) userId (db w) = [] \<longrightarrow>
              w2 = w1 \<and>
              attendance_rows_since (now1 - days 7) userId (db w2) =
                [new_notification now1 userId ''attendance''
                   ''We miss you! Try to visit at least twice this week.'' (db w)])"
proof (cases "attendance_rows_since (now1 - days 7) userId (db w) = []")
  case True
  from attendance_first [OF assms(1) True, of cfg]
  obtain w1 where w1: "attendance_notifyOnce cfg now1 userId w = Inr ((), w1)" "budget w1 = None"
    "db w1 = (db w)\<lparr>notifications := notifications (db w) @
                     [new_notification now1 userId ''attendance''
                        ''We miss you! Try to visit at least twice this week.'' (db w)]\<rparr>"
    by blast
  have "attendance_rows_since (now2 - days 7) userId (db w1) \<noteq> []"
    using assms(3) by (simp add: w1(3) attendance_rows_insert)
  then have second: "attendance_notifyOnce cfg now2 userId w1 = Inr ((), w1)"
    using w1(2) by (simp add: attendance_notifyOnce_None)
  have rows: "attendance_rows_since (now1 - days 7) userId (db w1) =
                [new_notification now1 userId ''attendance''
                   ''We miss you! Try to visit at least twice this week.'' (db w)]"
    using True by (simp add: w1(3) attendance_rows_insert days_def)
  from w1(1) second rows show ?thesis by (auto simp: w1(3))
next
  case False
  with assms(1) have first: "attendance_notifyOnce cfg now1 userId w = Inr ((), w)"
    by (simp add: attendance_notifyOnce_None)
  from attendance_any [OF assms(1), of cfg now2 userId] first False show ?thesis by auto
qed

lemma attendance_after:
  assumes "budget w = None" and "now1 + days 7 < now2"
    and "attendance_rows_since (now1 - days 7) userId (db w) = []"
  shows "\<exists>w1 w2. attendance_notifyOnce cfg now1 userId w = Inr ((), w1) \<and>
           attendance_notifyOnce cfg now2 userId w1 = Inr ((), w2) \<and>
           notifications (db w2) = notifications (db w) @
             [new_notification now1 userId ''attendance''
                ''We miss you! Try to visit at least twice this week.'' (db w),
              new_notification now2 userId ''attendance''
                ''We miss you! Try to visit at least twice this week.'' (db w1)]"
proof -
  from attendance_first [OF assms(1,3), of cfg]
  obtain w1 where w1: "attendance_notifyOnce cfg now1 userId w = Inr ((), w1)" "budget w1 = None"
    "db w1 = (db w)\<lparr>notifications := notifications (db w) @
                     [new_notification now1 userId ''attendance''
                        ''We miss you! Try to visit at least twice this week.'' (db w)]\<rparr>"
    by blast
  have "now1 - days 7 \<le> now2 - days 7" using assms(2) by (simp add: days_def)
  from attendance_rows_mono [OF this assms(3)]
  have "attendance_rows_since (now2 - days 7) userId (db w1) = []"
    using assms(2) by (simp add: w1(3) attendance_rows_insert)
  from attendance_first [OF w1(2) this, of cfg] w1(1) show ?thesis
    by (auto simp: w1(3))
qed

text \<open>
  C2. While the store answers: a second renewal check-then-insert for the same user on the
  same calendar day changes nothing, and that day then holds one renewal row of the user
  if it held none before. Two attendance check-then-inserts for a user at most 7 days
  apart insert at most one row, and when the 7 days before the first call held no
  attendance row of the user, the second call changes nothing and that window holds
  exactly the row of the first call. When the second call comes more than 7 days after a
  first call that found its window empty, each of the two calls appends a row.
\<close>

theorem notifyOnce_dedupe:
  assumes "budget w = None"
  shows "(x_user_id row2 = x_user_id row1 \<and> DATE now2 = DATE now1 \<longrightarrow>
            (\<exists>w1. renewal_notifyOnce cfg now1 row1 w = Inr ((), w1) \<and>
               renewal_notifyOnce cfg now2 row2 w1 = Inr ((), w1) \<and>
               length (renewal_rows_on (DATE now1) (x_user_id row1) (db w1)) =
                 max 1 (length (renewal_rows_on (DATE now1) (x_user_id row1) (db w))))) \<and>
         (now1 \<le> now2 \<and> now2 \<le> now1 + days 7 \<longrightarrow>
            (\<exists>w1 w2. attendance_notifyOnce cfg now1 userId w = Inr ((), w1) \<and>
               attendance_notifyOnce cfg now2 userId w1 = Inr ((), w2) \<and>
               length (notifications (db w2)) \<le> Suc (length (notifications (db w))) \<and>
               (attendance_rows_since (now1 - days 7) userId (db w) = [] \<longrightarrow>
                  w2 = w1 \<and>
                  attendance_rows_since (now1 - days 7) userId (db w2) =
                    [new_notification now1 userId ''attendance''
                       ''We miss you! Try to visit at least twice this week.'' (db w)]))) \<and>
         (now1 + days 7 < now2 \<and> attendance_rows_since (now1 - days 7) userId (db w) = [] \<longrightarrow>
            (\<exists>w1 w2. attendance_notifyOnce cfg now1 userId w = Inr ((), w1) \<and>
               attendance_notifyOnce cfg now2 userId w1 = Inr ((), w2) \<and>
               notifications (db w2) = notifications (db w) @
                 [new_notification now1 userId ''attendance''
                    ''We miss you! Try to visit at least twice this week.'' (db w),
                  new_notification now2 userId ''attendance''
                    ''We miss you! Try to visit at least twice this week.'' (db w1)]))"
proof (intro conjI impI)
  assume "x_user_id row2 = x_user_id row1 \<and> DATE now2 = DATE now1"
  then show "\<exists>w1. renewal_notifyOnce cfg now1 row1 w = Inr ((), w1) \<and>
               renewal_notifyOnce cfg now2 row2 w1 = Inr ((), w1) \<and>
               length (renewal_rows_on (DATE now1) (x_user_id row1) (db w1)) =
                 max 1 (length (renewal_rows_on (DATE now1) (x_user_id row1) (db w)))"
    using renewal_twice [OF assms, of row2 row1 now2 now1 cfg] by simp
next
  assume "now1 \<le> now2 \<and> now2 \<le> now1 + days 7"
  then show "\<exists>w1 w2. attendance_notifyOnce cfg now1 userId w = Inr ((), w1) \<and>
               attendance_notifyOnce cfg now2 userId w1 = Inr ((), w2) \<and>
               length (notifications (db w2)) \<le> Suc (length (notifications (db w))) \<and>
               (attendance_rows_since (now1 - days 7) userId (db w) = [] \<longrightarrow>
                  w2 = w1 \<and>
                  attendance_rows_since (now1 - days 7) userId (db w2) =
                    [new_notification now1 userId ''attendance''
                       ''We miss you! Try to visit at least twice this week.'' (db w)])"
    using attendance_within [OF assms, of now1 now2 cfg userId] by simp
next
  assume "now1 + days 7 < now2 \<and> attendance_rows_since (now1 - days 7) userId (db w) = []"
  then show "\<exists>w1 w2. attendance_notifyOnce cfg now1 userId w = Inr ((), w1) \<and>
               attendance_notifyOnce cfg now2 userId w1 = Inr ((), w2) \<and>
               notifications (db w2) = notifications (db w) @
                 [new_notification now1 userId ''attendance''
                    ''We miss you! Try to visit at least twice this week.'' (db w),
                  new_notification now2 userId ''attendance''
                    ''We miss you! Try to visit at least twice this week.'' (db w1)]"
    using attendance_after [OF assms, of now1 now2 userId cfg] by simp
qed

theorem notifyOnce_dedupe_witness:
  "budget (started gym_db) = None \<and>
   (x_user_id ann_row = x_user_id ann_row \<and> DATE (morning 1 + 3600) = DATE (morning 1)) \<and>
   (\<exists>w1. renewal_notifyOnce gym_config (morning 1) ann_row (started gym_db) = Inr ((), w1) \<and>
      renewal_notifyOnce gym_config (morning 1 + 3600) ann_row w1 = Inr ((), w1) \<and>
      length (renewal_rows_on (DATE (morning 1)) (x_user_id ann_row) (db w1)) =
        max 1 (length (renewal_rows_on (DATE (morning 1)) (x_user_id ann_row)
                         (db (started gym_db))))) \<and>
   (morning 1 \<le> morning 5 \<and> morning 5 \<le> morning 1 + days 7) \<and>
   (morning 1 + days 7 < morning 9 \<and>
    attendance_rows_since (morning 1 - days 7) 1 (db (started gym_db)) = []) \<and>
   map created_at
     (notifications (db (final (attendance_notifyOnce gym_config (morning 5) 1
        (final (attendance_notifyOnce gym_config (morning 1) 1 (started gym_db))))))) =
     [morning 1] \<and>
   map created_at
     (notifications (db (final (attendance_notifyOnce gym_config (morning 9) 1
        (final (attendance_notifyOnce gym_config (morning 1) 1 (started gym_db))))))) =
     [morning 1, morning 9]"
proof -
  have h: "budget (started gym_db) = None"
    by (simp add: started_def)
  have same_day: "x_user_id ann_row = x_user_id ann_row \<and> DATE (morning 1 + 3600) = DATE (morning 1)"
    by (simp add: DATE_def morning_def days_def)
  have within: "morning 1 \<le> morning 5 \<and> morning 5 \<le> morning 1 + days 7"
    by (simp add: morning_def days_def)
  have after: "morning 1 + days 7 < morning 9 \<and>
      attendance_rows_since (morning 1 - days 7) 1 (db (started gym_db)) = []"
    by (simp add: morning_def days_def attendance_rows_since_def started_def gym_db_def)
  note renewal = notifyOnce_dedupe [OF h, where ?row1.0 = ann_row and ?row2.0 = ann_row
      and ?now1.0 = "morning 1" and ?now2.0 = "morning 1 + 3600" and cfg = gym_config
      and userId = 1, THEN conjunct1, THEN mp, OF same_day]
  from notifyOnce_dedupe [OF h, where ?row1.0 = ann_row and ?row2.0 = ann_row
      and ?now1.0 = "morning 1" and ?now2.0 = "morning 5" and cfg = gym_config
      and userId = 1, THEN conjunct2, THEN conjunct1, THEN mp, OF within]
  obtain w1 w2 where day5:
    "attendance_notifyOnce gym_config (morning 1) 1 (started gym_db) = Inr ((), w1)"
    "attendance_notifyOnce gym_config (morning 5) 1 w1 = Inr ((), w2)"
    "attendance_rows_since (morning 1 - days 7) 1 (db (started gym_db)) = [] \<longrightarrow>
       w2 = w1 \<and>
       attendance_rows_since (morning 1 - days 7) 1 (db w2) =
         [new_notification (morning 1) 1 ''attendance''
            ''We miss you! Try to visit at least twice this week.'' (db (started gym_db))]"
    by (elim exE conjE)
  from notifyOnce_dedupe [OF h, where ?row1.0 = ann_row and ?row2.0 = ann_row
      and ?now1.0 = "morning 1" and ?now2.0 = "morning 9" and cfg = gym_config
      and userId = 1, THEN conjunct2, THEN conjunct2, THEN mp, OF after]
  obtain v1 v2 where day9:
    "attendance_notifyOnce gym_config (morning 1) 1 (started gym_db) = Inr ((), v1)"
    "attendance_notifyOnce gym_config (morning 9) 1 v1 = Inr ((), v2)"
    "notifications (db v2) = notifications (db (started gym_db)) @
       [new_notification (morning 1) 1 ''attendance''
          ''We miss you! Try to visit at least twice this week.'' (db (started gym_db)),
        new_notification (morning 9) 1 ''attendance''
          ''We miss you! Try to visit at least twice this week.'' (db v1)]"
    by (elim exE conjE)
  have none: "notifications (db (started gym_db)) = []"
    by (simp add: started_def gym_db_def)
  from day5(3) after have "w2 = w1"
    by simp
  have first: "notifications (db w1) =
      [new_notification (morning 1) 1 ''attendance''
         ''We miss you! Try to visit at least twice this week.'' (db (started gym_db))]"
    using attendance_first [OF h after [THEN conjunct2], of gym_config] day5(1)
    by (auto simp: none)
  have five: "map created_at
     (notifications (db (final (attendance_notifyOnce gym_config (morning 5) 1
        (final (attendance_notifyOnce gym_config (morning 1) 1 (started gym_db))))))) =
     [morning 1]"
    using day5(1,2) \<open>w2 = w1\<close> first by (simp add: final_def new_notification_def)
  have nine: "map created_at
     (notifications (db (final (attendance_notifyOnce gym_config (morning 9) 1
        (final (attendance_notifyOnce gym_config (morning 1) 1 (started gym_db))))))) =
     [morning 1, morning 9]"
    using day9 none by (simp add: final_def new_notification_def)
  show ?thesis by (intro conjI h same_day renewal within after five nine)
qed

section \<open>Properties of the attendance selection\<close>

lemma attendance_notifyOnce_frame:
  assumes "budget w = None"
  shows "\<exists>w1. attendance_notifyOnce cfg now userId w = Inr ((), w1) \<and> budget w1 = None \<and>
           attendance (db w1) = attendance (db w)"
proof (cases "attendance_rows_since (now - days 7) userId (db w) = []")
  case True
  from attendance_first [OF assms True, of cfg] show ?thesis by auto
next
  case False
  with assms show ?thesis by (simp add: attendance_notifyOnce_None)
qed

lemma attendance_step_None:
  "budget w = None \<Longrightarrow>
     attendance_step cfg now userId w =
       (if select_attendance_cnt (DATE now) userId (db w) < 2
        then attendance_notifyOnce cfg now userId w else Inr ((), w))"
  by (simp add: attendance_step_def query_None)

lemma attendance_cnt_cong:
  "attendance d' = attendance d \<Longrightarrow>
     select_attendance_cnt today userId d' = select_attendance_cnt today userId d"
  by (simp add: select_attendance_cnt_def)

lemma attendance_loop_filter:
  "budget w = None \<Longrightarrow>
     for_each (attendance_step cfg now) us w =
       for_each (attendance_notifyOnce cfg now)
         (filter (\<lambda>userId. select_attendance_cnt (DATE now) userId (db w) < 2) us) w"
proof (induction us arbitrary: w)
  case Nil
  then show ?case by simp
next
  case (Cons u us)
  show ?case
  proof (cases "select_attendance_cnt (DATE now) u (db w) < 2")
    case True
    from attendance_notifyOnce_frame [OF Cons.prems, of cfg now u]
    obtain w1 where w1: "attendance_notifyOnce cfg now u w = Inr ((), w1)" "budget w1 = None"
      "attendance (db w1) = attendance (db w)" by blast
    have same: "(\<lambda>userId. select_attendance_cnt (DATE now) userId (db w1) < 2) =
                (\<lambda>userId. select_attendance_cnt (DATE now) userId (db w) < 2)"
      by (simp add: attendance_cnt_cong [OF w1(3)])
    from Cons.IH [OF w1(2)] True w1(1) Cons.prems show ?thesis
      by (simp add: attendance_step_None same)
  next
    case False
    with Cons.IH [OF Cons.prems] Cons.prems show ?thesis
      by (simp add: attendance_step_None)
  qed
qed

text \<open>
  C5, as the code has it. The members for whom the attendance branch reaches its dedupe
  check are the users with role member and \<open>is_active\<close> set whose number of attendance
  entries with check-in date on or after \<open>today - 7\<close> (that day included, and with no upper
  bound on the date) is below 2; while the store answers, the second loop of
  \<open>dailyNotificationTasks\<close> is the dedupe check run over exactly these members.
\<close>

theorem low_attendance_selection:
  "low_attendance_members today d =
     map u_id (filter (\<lambda>u. u_role u = Member \<and> u_is_active u \<and>
                  length (filter (\<lambda>a. a_user_id a = u_id u \<and> today - 7 \<le> DATE (check_in a))
                            (attendance d)) < 2) (users d)) \<and>
   (budget w = None \<longrightarrow>
      for_each (attendance_step cfg now) (select_members (db w)) w =
        for_each (attendance_notifyOnce cfg now) (low_attendance_members (DATE now) (db w)) w)"
proof
  show "low_attendance_members today d =
     map u_id (filter (\<lambda>u. u_role u = Member \<and> u_is_active u \<and>
                  length (filter (\<lambda>a. a_user_id a = u_id u \<and> today - 7 \<le> DATE (check_in a))
                            (attendance d)) < 2) (users d))"
    by (simp add: low_attendance_members_def select_members_def select_attendance_cnt_def
        filter_map comp_def conj_commute conj_left_commute)
  show "budget w = None \<longrightarrow>
      for_each (attendance_step cfg now) (select_members (db w)) w =
        for_each (attendance_notifyOnce cfg now) (low_attendance_members (DATE now) (db w)) w"
    by (simp add: attendance_loop_filter low_attendance_members_def)
qed

theorem low_attendance_selection_witness:
  "budget (started attendance_db) = None \<and>
   low_attendance_members 20 attendance_db = [1] \<and>
   for_each (attendance_step gym_config (morning 20)) (select_members (db (started attendance_db)))
       (started attendance_db) =
     for_each (attendance_notifyOnce gym_config (morning 20))
       (low_attendance_members (DATE (morning 20)) (db (started attendance_db)))
       (started attendance_db)"
proof -
  have h: "budget (started attendance_db) = None"
    by (simp add: started_def)
  note sel = low_attendance_selection [of 20 attendance_db "started attendance_db" gym_config
      "morning 20"]
  have "low_attendance_members 20 attendance_db = [1]"
    unfolding sel [THEN conjunct1]
    by (simp add: model_defs example_defs)
  with h sel [THEN conjunct2, THEN mp, OF h] show ?thesis by simp
qed

text \<open>
  C5 as stated fails on the boundary day: on day 20 Ann's two visits of day 13 are outside
  the window the claim describes, which makes her count 0 there, and she is not selected.
\<close>

theorem low_attendance_boundary_counterexample:
  "attendance_count_spec 20 1 boundary_db = 0 \<and>
   select_members boundary_db = [1] \<and>
   select_attendance_cnt 20 1 boundary_db = 2 \<and>
   low_attendance_members 20 boundary_db = []"
  by (simp add: attendance_count_spec_def model_defs example_defs)

section \<open>Properties of POST /subscribe\<close>






section \<open>Properties of calcBMI\<close>



section \<open>Properties of the daily run gate\<close>

text \<open>
  No call below \<open>runHourlyTasks\<close> touches the key, and none but the daily job its counters.
\<close>

lemma final_simps [simp]: "final (Inl (e, w)) = w" "final (Inr (x, w)) = w"
  by (simp_all add: final_def)

lemma returned_simps [simp]: "returned (Inl ew) = False" "returned (Inr xw) = True"
  by (simp_all add: returned_def)

lemma progress_log:
  "l \<noteq> DailyNotificationsComplete \<Longrightarrow> progress (w\<lparr>console := console w @ [l]\<rparr>) = progress w"
  by (simp add: progress_def completions_def)

lemma execute_progress: "progress (final (execute stmt w)) = progress w"
  by (simp add: execute_def progress_def completions_def split: option.splits nat.splits prod.splits)

lemma query_progress: "progress (final (query q w)) = progress w"
  by (simp add: query_def execute_progress)

lemma sendEmail_progress: "progress (sendEmail cfg to subject name msg w) = progress w"
  by (simp add: sendEmail_def progress_def completions_def)

lemma seq_progress:
  assumes "progress (final (m w)) = progress w"
    and "\<And>r w1. m w = Inr (r, w1) \<Longrightarrow> progress (final (k r w1)) = progress w1"
  shows "progress (final (case m w of Inl ew \<Rightarrow> Inl ew | Inr (r, w1) \<Rightarrow> k r w1)) = progress w"
  using assms by (cases "m w") (auto split: prod.splits)

lemma addNotification_progress: "progress (final (addNotification cfg now userId type msg w)) = progress w"
  unfolding addNotification_def
proof (rule seq_progress)
  show "progress (final (execute (insert_notification now userId type msg) w)) = progress w"
    by (rule execute_progress)
next
  fix r w1
  show "progress (final (case query (select_user userId) w1 of
              Inl (e, w2) \<Rightarrow> Inr ((), w2\<lparr>console := console w2 @ [EmailOnNotificationFailed]\<rparr>)
            | Inr (None, w2) \<Rightarrow> Inr ((), w2)
            | Inr (Some u, w2) \<Rightarrow>
                if u_email u \<noteq> []
                then Inr ((), sendEmail cfg (u_email u) (subject_for type)
                               (if u_name u = [] then ''Member'' else u_name u) msg w2)
                else Inr ((), w2))) = progress w1"
    using query_progress [of "select_user userId" w1]
    by (auto simp: progress_log sendEmail_progress split: sum.splits prod.splits option.splits)
qed

lemma renewal_notifyOnce_progress: "progress (final (renewal_notifyOnce cfg now row w)) = progress w"
  unfolding renewal_notifyOnce_def
  by (rule seq_progress) (auto simp: query_progress addNotification_progress split: option.splits)

lemma attendance_notifyOnce_progress: "progress (final (attendance_notifyOnce cfg now userId w)) = progress w"
  unfolding attendance_notifyOnce_def
  by (rule seq_progress) (auto simp: query_progress addNotification_progress split: option.splits)

lemma attendance_step_progress: "progress (final (attendance_step cfg now userId w)) = progress w"
  unfolding attendance_step_def
  by (rule seq_progress) (auto simp: query_progress attendance_notifyOnce_progress)

lemma for_each_progress:
  assumes "\<And>x w. progress (final (body x w)) = progress w"
  shows "progress (final (for_each body xs w)) = progress w"
proof (induction xs arbitrary: w)
  case Nil
  then show ?case by simp
next
  case (Cons x xs)
  show ?case
    unfolding for_each.simps
    by (rule seq_progress) (simp_all add: assms Cons.IH)
qed

lemma activateExpireTasks_progress: "progress (final (activateExpireTasks today w)) = progress w"
  unfolding activateExpireTasks_def
  by (rule seq_progress) (simp_all add: execute_progress)
lemma dailyNotificationTasks_progress:
  "progress (final (dailyNotificationTasks cfg now w)) =
     (lastDailyRunKey w, Suc (daily_calls w),
      if returned (dailyNotificationTasks cfg now w) then Suc (completions w) else completions w)"
proof -
  let ?w0 = "w\<lparr>daily_calls := Suc (daily_calls w)\<rparr>"
  have p0: "progress ?w0 = (lastDailyRunKey w, Suc (daily_calls w), completions w)"
    by (simp add: progress_def completions_def)
  have complete: "progress (v\<lparr>console := console v @ [DailyNotificationsComplete]\<rparr>) =
                (lastDailyRunKey w, Suc (daily_calls w), Suc (completions w))"
    if "progress v = progress ?w0" for v
    using that by (simp add: progress_def completions_def)
  show ?thesis
  proof (cases "query (select_expiring (DATE now)) ?w0")
    case (Inl ew)
    with query_progress [of "select_expiring (DATE now)" ?w0] show ?thesis
      by (cases ew) (simp add: dailyNotificationTasks_def p0)
  next
    case q1: (Inr a)
    obtain expiring w1 where a: "a = (expiring, w1)" by (cases a)
    from q1 a query_progress [of "select_expiring (DATE now)" ?w0] have p1: "progress w1 = progress ?w0"
      by simp
    show ?thesis
    proof (cases "for_each (renewal_notifyOnce cfg now) expiring w1")
      case (Inl ew)
      with for_each_progress [of "renewal_notifyOnce cfg now" expiring w1, OF renewal_notifyOnce_progress]
        q1 a p1 show ?thesis
        by (cases ew) (simp add: dailyNotificationTasks_def p0)
    next
      case l1: (Inr b)
      obtain u w2 where b: "b = (u, w2)" by (cases b)
      from l1 b for_each_progress [of "renewal_notifyOnce cfg now" expiring w1, OF renewal_notifyOnce_progress]
      have p2: "progress w2 = progress ?w0" by (simp add: p1)
      show ?thesis
      proof (cases "query select_members w2")
        case (Inl ew)
        with query_progress [of select_members w2] q1 a l1 b p2 show ?thesis
          by (cases ew) (simp add: dailyNotificationTasks_def p0)
      next
        case q2: (Inr c)
        obtain members w3 where c: "c = (members, w3)" by (cases c)
        from q2 c query_progress [of select_members w2] have p3: "progress w3 = progress ?w0"
          by (simp add: p2)
        show ?thesis
        proof (cases "for_each (attendance_step cfg now) members w3")
          case (Inl ew)
          with for_each_progress [of "attendance_step cfg now" members w3, OF attendance_step_progress]
            q1 a l1 b q2 c p3 show ?thesis
            by (cases ew) (simp add: dailyNotificationTasks_def p0)
        next
          case l2: (Inr d)
          obtain u' w4 where d: "d = (u', w4)" by (cases d)
          from l2 d for_each_progress [of "attendance_step cfg now" members w3, OF attendance_step_progress]
          have p4: "progress w4 = progress ?w0" by (simp add: p3)
          from q1 a l1 b q2 c l2 d complete [OF p4] show ?thesis
            by (simp add: dailyNotificationTasks_def)
        qed
      qed
    qed
  qed
qed

lemma runHourlyTasks_progress:
  "progress (runHourlyTasks cfg now sqlnow w) =
     (if returned (activateExpireTasks (DATE sqlnow) w) \<and>
         shouldRunDaily cfg now (lastDailyRunKey w)
      then (if returned (dailyNotificationTasks cfg sqlnow (final (activateExpireTasks (DATE sqlnow) w)))
            then (Some (todayKey now), Suc (daily_calls w), Suc (completions w))
            else (lastDailyRunKey w, Suc (daily_calls w), completions w))
      else progress w)"
proof (cases "activateExpireTasks (DATE sqlnow) w")
  case (Inl ew)
  with activateExpireTasks_progress [of "DATE sqlnow" w] show ?thesis
    by (cases ew) (simp add: runHourlyTasks_def progress_log)
next
  case (Inr a)
  obtain u w1 where a: "a = (u, w1)" by (cases a)
  from Inr a activateExpireTasks_progress [of "DATE sqlnow" w] have p1: "progress w1 = progress w" by simp
  then have k1: "lastDailyRunKey w1 = lastDailyRunKey w" "daily_calls w1 = daily_calls w"
    "completions w1 = completions w" by (simp_all add: progress_def)
  show ?thesis
  proof (cases "shouldRunDaily cfg now (lastDailyRunKey w)")
    case False
    with Inr a p1 k1 show ?thesis by (auto simp: runHourlyTasks_def shouldRunDaily_def)
  next
    case True
    show ?thesis
    proof (cases "dailyNotificationTasks cfg sqlnow w1")
      case (Inl ew)
      obtain e w2 where ew: "ew = (e, w2)" by (cases ew)
      from dailyNotificationTasks_progress [of cfg sqlnow w1] Inl ew
      have "progress w2 = (lastDailyRunKey w, Suc (daily_calls w), completions w)"
        by (simp add: k1)
      with True Inr a Inl ew k1 show ?thesis
        by (simp add: runHourlyTasks_def shouldRunDaily_def progress_log)
    next
      case b: (Inr xw)
      obtain x w2 where xw: "xw = (x, w2)" by (cases xw)
      from dailyNotificationTasks_progress [of cfg sqlnow w1] b xw
      have "progress w2 = (lastDailyRunKey w, Suc (daily_calls w), Suc (completions w))"
        by (simp add: k1)
      then have "progress (w2\<lparr>lastDailyRunKey := Some (todayKey now)\<rparr>) =
         (Some (todayKey now), Suc (daily_calls w), Suc (completions w))"
        by (simp add: progress_def completions_def)
      with True Inr a b xw k1 show ?thesis
        by (simp add: runHourlyTasks_def shouldRunDaily_def)
    qed
  qed
qed
lemma renewal_notifyOnce_ok:
  assumes "budget w = None"
  shows "\<exists>w1. renewal_notifyOnce cfg now row w = Inr ((), w1) \<and> budget w1 = None"
  using addNotification_None [OF assms, of cfg now "x_user_id row" "''renewal''" "renewal_message cfg row"] assms
  by (auto simp: renewal_notifyOnce_None)

lemma attendance_step_ok:
  assumes "budget w = None"
  shows "\<exists>w1. attendance_step cfg now userId w = Inr ((), w1) \<and> budget w1 = None"
  using attendance_notifyOnce_frame [OF assms, of cfg now userId] assms
  by (auto simp: attendance_step_None)

lemma for_each_ok:
  assumes "\<And>x w. budget w = None \<Longrightarrow> \<exists>w1. body x w = Inr ((), w1) \<and> budget w1 = None"
  shows "budget w = None \<Longrightarrow> \<exists>w1. for_each body xs w = Inr ((), w1) \<and> budget w1 = None"
proof (induction xs arbitrary: w)
  case Nil
  then show ?case by simp
next
  case (Cons x xs)
  from assms [OF Cons.prems, of x] obtain w1 where "body x w = Inr ((), w1)" "budget w1 = None"
    by blast
  with Cons.IH [of w1] show ?case by simp
qed

lemma dailyNotificationTasks_ok:
  assumes "budget w = None"
  shows "returned (dailyNotificationTasks cfg now w)"
proof -
  let ?w0 = "w\<lparr>daily_calls := Suc (daily_calls w)\<rparr>"
  have b0: "budget ?w0 = None" using assms by simp
  from for_each_ok [of "renewal_notifyOnce cfg now", OF renewal_notifyOnce_ok b0]
  obtain w2 where w2: "for_each (renewal_notifyOnce cfg now) (select_expiring (DATE now) (db ?w0)) ?w0 = Inr ((), w2)"
    "budget w2 = None" by blast
  from for_each_ok [of "attendance_step cfg now", OF attendance_step_ok w2(2)]
  obtain w4 where w4: "for_each (attendance_step cfg now) (select_members (db w2)) w2 = Inr ((), w4)"
    by blast
  show ?thesis
    unfolding dailyNotificationTasks_def
    using w2 w4 by (simp add: query_None [OF b0] query_None [OF w2(2)])
qed

lemma activateExpireTasks_ok:
  "budget w = None \<Longrightarrow>
     returned (activateExpireTasks today w) \<and> budget (final (activateExpireTasks today w)) = None"
  by (simp add: activateExpireTasks_None)

lemma arrive_progress: "progress (arrive t w) = progress w"
  by (simp add: arrive_def progress_def completions_def)

lemma hourly_tick_cases:
  "progress (hourly_tick cfg t w) = progress w \<or>
   shouldRunDaily cfg (js_now t) (lastDailyRunKey w) \<and>
     (progress (hourly_tick cfg t w) = (lastDailyRunKey w, Suc (daily_calls w), completions w) \<or>
      progress (hourly_tick cfg t w) =
        (Some (todayKey (js_now t)), Suc (daily_calls w), Suc (completions w)))"
proof -
  have k: "lastDailyRunKey (arrive t w) = lastDailyRunKey w" "daily_calls (arrive t w) = daily_calls w"
    "completions (arrive t w) = completions w"
    using arrive_progress [of t w] by (simp_all add: progress_def)
  show ?thesis
    unfolding hourly_tick_def runHourlyTasks_progress k arrive_progress by simp
qed

lemma hourly_tick_no_fault:
  assumes "tick_budget t = None"
  shows "progress (hourly_tick cfg t w) =
           (if shouldRunDaily cfg (js_now t) (lastDailyRunKey w)
            then (Some (todayKey (js_now t)), Suc (daily_calls w), Suc (completions w))
            else progress w)"
proof -
  have k: "lastDailyRunKey (arrive t w) = lastDailyRunKey w" "daily_calls (arrive t w) = daily_calls w"
    "completions (arrive t w) = completions w"
    using arrive_progress [of t w] by (simp_all add: progress_def)
  have b: "budget (arrive t w) = None" using assms by (simp add: arrive_def)
  show ?thesis
    unfolding hourly_tick_def runHourlyTasks_progress k arrive_progress
    using activateExpireTasks_ok [OF b] dailyNotificationTasks_ok by simp
qed

lemma run_ticks_Cons: "run_ticks cfg (t # ts) w = run_ticks cfg ts (hourly_tick cfg t w)"
  by (simp add: run_ticks_def)

lemma run_ticks_same_day:
  assumes "\<forall>t \<in> set ts. todayKey (js_now t) = k"
  shows "completions (run_ticks cfg ts w) \<le> Suc (completions w) \<and>
         (lastDailyRunKey w = Some k \<longrightarrow> progress (run_ticks cfg ts w) = progress w)"
  using assms
proof (induction ts arbitrary: w)
  case Nil
  then show ?case by (simp add: run_ticks_def)
next
  case (Cons t ts)
  let ?w1 = "hourly_tick cfg t w"
  from Cons.prems have key: "todayKey (js_now t) = k" and rest: "\<forall>t \<in> set ts. todayKey (js_now t) = k"
    by simp_all
  note IH = Cons.IH [OF rest, of ?w1]
  from hourly_tick_cases [of cfg t w] consider
    (same) "progress ?w1 = progress w"
    | (failed) "lastDailyRunKey w \<noteq> Some k" "progress ?w1 = (lastDailyRunKey w, Suc (daily_calls w), completions w)"
    | (completed) "lastDailyRunKey w \<noteq> Some k" "progress ?w1 = (Some k, Suc (daily_calls w), Suc (completions w))"
    by (auto simp: shouldRunDaily_def key)
  then show ?case
  proof cases
    case same
    with IH show ?thesis by (simp add: run_ticks_Cons progress_def)
  next
    case failed
    with IH show ?thesis by (simp add: run_ticks_Cons progress_def)
  next
    case completed
    with IH show ?thesis by (simp add: run_ticks_Cons progress_def)
  qed
qed

lemma run_ticks_no_fault:
  assumes "\<forall>t \<in> set ts. todayKey (js_now t) = k \<and> tick_budget t = None"
  shows "daily_calls (run_ticks cfg ts w) \<le> Suc (daily_calls w)"
  using assms
proof (induction ts arbitrary: w)
  case Nil
  then show ?case by (simp add: run_ticks_def)
next
  case (Cons t ts)
  let ?w1 = "hourly_tick cfg t w"
  from Cons.prems have key: "todayKey (js_now t) = k" and nf: "tick_budget t = None"
    and rest: "\<forall>t \<in> set ts. todayKey (js_now t) = k \<and> tick_budget t = None"
    by simp_all
  show ?case
  proof (cases "shouldRunDaily cfg (js_now t) (lastDailyRunKey w)")
    case False
    with hourly_tick_no_fault [OF nf, of cfg w] have "progress ?w1 = progress w" by simp
    with Cons.IH [OF rest, of ?w1] show ?thesis by (simp add: run_ticks_Cons progress_def)
  next
    case True
    with hourly_tick_no_fault [OF nf, of cfg w] key
    have p: "progress ?w1 = (Some k, Suc (daily_calls w), Suc (completions w))" by simp
    then have "lastDailyRunKey ?w1 = Some k" by (simp add: progress_def)
    with run_ticks_same_day [of ts k cfg ?w1] rest have "progress (run_ticks cfg ts ?w1) = progress ?w1"
      by simp
    with p show ?thesis by (simp add: run_ticks_Cons progress_def)
  qed
qed

lemma run_ticks_before_hour:
  assumes "\<forall>t \<in> set ts. int (hours (js_now t)) < DAILY_RUN_HOUR cfg"
  shows "progress (run_ticks cfg ts w) = progress w"
  using assms
proof (induction ts arbitrary: w)
  case Nil
  then show ?case by (simp add: run_ticks_def)
next
  case (Cons t ts)
  from Cons.prems hourly_tick_cases [of cfg t w] have "progress (hourly_tick cfg t w) = progress w"
    by (auto simp: shouldRunDaily_def)
  with Cons.IH [of "hourly_tick cfg t w"] Cons.prems show ?case by (simp add: run_ticks_Cons)
qed
lemma hourly_tick_progress:
  "progress (hourly_tick cfg t w) =
     (if entered cfg t w
      then (if completed cfg t w
            then (Some (todayKey (js_now t)), Suc (daily_calls w), Suc (completions w))
            else (lastDailyRunKey w, Suc (daily_calls w), completions w))
      else progress w)"
proof -
  have k: "lastDailyRunKey (arrive t w) = lastDailyRunKey w" "daily_calls (arrive t w) = daily_calls w"
    "completions (arrive t w) = completions w"
    using arrive_progress [of t w] by (simp_all add: progress_def)
  show ?thesis
    unfolding hourly_tick_def runHourlyTasks_progress k arrive_progress entered_def completed_def by simp
qed

text \<open>
  C3, as the code has it. At a tick the daily job is entered exactly when the lifecycle
  step returned, the hour is at least \<open>DAILY_RUN_HOUR\<close> and the key differs from today's; the
  key becomes today's exactly when the job, entered, runs to its end, and stays as it was
  when it throws. Hence over ticks that all come before the configured hour the job is
  never entered; over any ticks of one calendar day it completes at most once; and it is
  entered at most once when the store rejects nothing during those ticks. A run that
  throws leaves the gate open, so the job is entered again at the next tick.
\<close>

theorem daily_gate:
  "daily_calls (hourly_tick cfg t w) = (if entered cfg t w then Suc (daily_calls w) else daily_calls w) \<and>
   completions (hourly_tick cfg t w) = (if completed cfg t w then Suc (completions w) else completions w) \<and>
   lastDailyRunKey (hourly_tick cfg t w) =
     (if completed cfg t w then Some (todayKey (js_now t)) else lastDailyRunKey w) \<and>
   ((\<forall>t \<in> set ts. int (hours (js_now t)) < DAILY_RUN_HOUR cfg) \<longrightarrow>
      daily_calls (run_ticks cfg ts w) = daily_calls w) \<and>
   ((\<forall>t \<in> set ts. fullYear (js_now t) = y \<and> month (js_now t) = m \<and> date (js_now t) = d) \<longrightarrow>
      completions (run_ticks cfg ts w) \<le> Suc (completions w) \<and>
      ((\<forall>t \<in> set ts. tick_budget t = None) \<longrightarrow>
         daily_calls (run_ticks cfg ts w) \<le> Suc (daily_calls w)))"
proof (intro conjI impI)
  have p: "progress (hourly_tick cfg t w) =
     (if entered cfg t w
      then (if completed cfg t w
            then (Some (todayKey (js_now t)), Suc (daily_calls w), Suc (completions w))
            else (lastDailyRunKey w, Suc (daily_calls w), completions w))
      else progress w)" by (rule hourly_tick_progress)
  have c: "completed cfg t w \<Longrightarrow> entered cfg t w" by (simp add: completed_def)
  from p show "daily_calls (hourly_tick cfg t w) =
      (if entered cfg t w then Suc (daily_calls w) else daily_calls w)"
    by (simp add: progress_def split: if_splits)
  from p c show "completions (hourly_tick cfg t w) =
      (if completed cfg t w then Suc (completions w) else completions w)"
    by (auto simp: progress_def split: if_splits)
  from p c show "lastDailyRunKey (hourly_tick cfg t w) =
     (if completed cfg t w then Some (todayKey (js_now t)) else lastDailyRunKey w)"
    by (auto simp: progress_def split: if_splits)
next
  assume "\<forall>t \<in> set ts. int (hours (js_now t)) < DAILY_RUN_HOUR cfg"
  from run_ticks_before_hour [OF this, of w]
  show "daily_calls (run_ticks cfg ts w) = daily_calls w" by (simp add: progress_def)
next
  assume day: "\<forall>t \<in> set ts. fullYear (js_now t) = y \<and> month (js_now t) = m \<and> date (js_now t) = d"
  then have key: "\<forall>t \<in> set ts.
      todayKey (js_now t) = todayKey \<lparr>fullYear = y, month = m, date = d, hours = 0\<rparr>"
    by (simp add: todayKey_def)
  from run_ticks_same_day [OF key, of cfg w]
  show "completions (run_ticks cfg ts w) \<le> Suc (completions w)" by simp
  assume "\<forall>t \<in> set ts. tick_budget t = None"
  with key have "\<forall>t \<in> set ts.
      todayKey (js_now t) = todayKey \<lparr>fullYear = y, month = m, date = d, hours = 0\<rparr> \<and>
      tick_budget t = None" by simp
  from run_ticks_no_fault [OF this]
  show "daily_calls (run_ticks cfg ts w) \<le> Suc (daily_calls w)" .
qed

theorem daily_gate_witness:
  "int (hours (js_now (tick_at 7 None))) < DAILY_RUN_HOUR gym_config \<and>
   int (hours (js_now (tick_at 8 None))) < DAILY_RUN_HOUR gym_config \<and>
   daily_calls (run_ticks gym_config [tick_at 7 None, tick_at 8 None] (started gym_db)) = 0 \<and>
   js_now (tick_at 8 None) = \<lparr>fullYear = 2026, month = 10, date = 2, hours = 8\<rparr> \<and>
   js_now (tick_at 9 None) = \<lparr>fullYear = 2026, month = 10, date = 2, hours = 9\<rparr> \<and>
   js_now (tick_at 10 None) = \<lparr>fullYear = 2026, month = 10, date = 2, hours = 10\<rparr> \<and>
   tick_budget (tick_at 8 None) = None \<and> tick_budget (tick_at 9 None) = None \<and>
   tick_budget (tick_at 10 None) = None \<and>
   completions (run_ticks gym_config [tick_at 8 None, tick_at 9 None, tick_at 10 None]
                  (started gym_db)) \<le> Suc 0 \<and>
   daily_calls (run_ticks gym_config [tick_at 8 None, tick_at 9 None, tick_at 10 None]
                  (started gym_db)) \<le> Suc 0 \<and>
   lastDailyRunKey (run_ticks gym_config [tick_at 8 None, tick_at 9 None, tick_at 10 None]
                  (started gym_db)) = Some ''2026-11-02''"
proof -
  have early: "\<forall>t \<in> set [tick_at 7 None, tick_at 8 None].
      int (hours (js_now t)) < DAILY_RUN_HOUR gym_config"
    by (simp add: tick_at_def gym_config_def)
  have day: "\<forall>t \<in> set [tick_at 8 None, tick_at 9 None, tick_at 10 None].
      fullYear (js_now t) = 2026 \<and> month (js_now t) = 10 \<and> date (js_now t) = 2"
    by (simp add: tick_at_def)
  have nf: "\<forall>t \<in> set [tick_at 8 None, tick_at 9 None, tick_at 10 None]. tick_budget t = None"
    by (simp add: tick_at_def)
  have zero: "daily_calls (started gym_db) = 0" "completions (started gym_db) = 0"
    by (simp_all add: started_def completions_def)
  note before = daily_gate [of gym_config "tick_at 9 None" "started gym_db"
      "[tick_at 7 None, tick_at 8 None]" 2026 10 2,
      THEN conjunct2, THEN conjunct2, THEN conjunct2, THEN conjunct1, THEN mp, OF early]
  note once = daily_gate [of gym_config "tick_at 9 None" "started gym_db"
      "[tick_at 8 None, tick_at 9 None, tick_at 10 None]" 2026 10 2,
      THEN conjunct2, THEN conjunct2, THEN conjunct2, THEN conjunct2, THEN mp, OF day]
  have a: "daily_calls (run_ticks gym_config [tick_at 7 None, tick_at 8 None] (started gym_db)) = 0"
    using before by (simp only: zero)
  have b: "completions (run_ticks gym_config [tick_at 8 None, tick_at 9 None, tick_at 10 None]
                  (started gym_db)) \<le> Suc 0"
    using once [THEN conjunct1] by (simp only: zero)
  have c: "daily_calls (run_ticks gym_config [tick_at 8 None, tick_at 9 None, tick_at 10 None]
                  (started gym_db)) \<le> Suc 0"
    using once [THEN conjunct2, THEN mp, OF nf] by (simp only: zero)
  have k: "lastDailyRunKey (run_ticks gym_config [tick_at 8 None, tick_at 9 None, tick_at 10 None]
                  (started gym_db)) = Some ''2026-11-02''"
    by (simp add: model_defs example_defs)
  have hrs: "int (hours (js_now (tick_at 7 None))) < DAILY_RUN_HOUR gym_config"
    "int (hours (js_now (tick_at 8 None))) < DAILY_RUN_HOUR gym_config"
    using early by simp_all
  have dates: "js_now (tick_at 8 None) = \<lparr>fullYear = 2026, month = 10, date = 2, hours = 8\<rparr>"
    "js_now (tick_at 9 None) = \<lparr>fullYear = 2026, month = 10, date = 2, hours = 9\<rparr>"
    "js_now (tick_at 10 None) = \<lparr>fullYear = 2026, month = 10, date = 2, hours = 10\<rparr>"
    by (simp_all add: tick_at_def)
  have budgets: "tick_budget (tick_at 8 None) = None" "tick_budget (tick_at 9 None) = None"
    "tick_budget (tick_at 10 None) = None"
    by (simp_all add: tick_at_def)
  show ?thesis by (intro conjI hrs a dates budgets b c k)
qed

text \<open>
  C3 as stated fails when a run throws: on 2 November the store rejects the seventh
  statement of the 09:00 tick, after the renewal notification was inserted; the key stays
  unset and the 10:00 tick enters the daily job a second time.
\<close>

theorem daily_job_twice_counterexample:
  "fullYear (js_now (tick_at 9 (Some 6))) = fullYear (js_now (tick_at 10 None)) \<and>
   month (js_now (tick_at 9 (Some 6))) = month (js_now (tick_at 10 None)) \<and>
   date (js_now (tick_at 9 (Some 6))) = date (js_now (tick_at 10 None)) \<and>
   daily_calls (started gym_db) = 0 \<and>
   daily_calls (run_ticks gym_config [tick_at 9 (Some 6), tick_at 10 None] (started gym_db)) = 2 \<and>
   map n_type (notifications (db (run_ticks gym_config [tick_at 9 (Some 6)] (started gym_db)))) =
     [''renewal''] \<and>
   map n_type (notifications (db (run_ticks gym_config [tick_at 9 (Some 6), tick_at 10 None]
                                    (started gym_db)))) =
     [''renewal'', ''attendance'']"
  by (simp add: model_defs example_defs)

end
